theory Spec2Isabelle
  imports Main "HOL-Library.Word"
begin

section \<open>Data model\<close>

text \<open>
  The C++ types of \<^verbatim>\<open>evaluation.cpp\<close>:
  \<^item> \<^verbatim>\<open>int\<close> is a 32-bit word; \<open>+\<close> and \<open>*\<close> wrap around as two's-complement
    hardware does (the C++ standard itself leaves signed overflow undefined), and
    \<open>sint\<close> reads the signed value;
  \<^item> \<^verbatim>\<open>unsigned int\<close>, the type of both loop counters, is a 32-bit word as well;
    \<open>i + 1\<close> wraps from \<open>2 ^ 32 - 1\<close> to \<open>0\<close>;
  \<^item> \<^verbatim>\<open>std::vector<int>\<close> is a list; \<^verbatim>\<open>size()\<close> is its length, a
    \<^verbatim>\<open>size_t\<close>, wider than the counter wherever a vector can hold \<open>2 ^ 32\<close>
    elements; the comparison \<^verbatim>\<open>i < size()\<close> widens \<open>i\<close> and truncates nothing.
\<close>

type_synonym c_int = "32 word"
type_synonym c_uint = "32 word"
type_synonym int_vector = "c_int list"

text \<open>
  The candidate is a plain function pointer \<^verbatim>\<open>int (*)(std::vector<int>)\<close>. Nothing keeps
  such a function from reading and writing the state of the program outside
  \<^verbatim>\<open>evaluate\<close> (a static counter, a global), or from not returning. So a candidate
  takes its argument (a copy of the test vector, which it cannot change for the caller)
  and the state \<open>'w\<close> of the rest of the program, and returns \<open>None\<close> when it does not
  come back (it loops, throws or aborts: \<^verbatim>\<open>evaluate\<close> catches nothing), or its result
  with the new state.
\<close>

type_synonym 'w candidate = "int_vector \<Rightarrow> 'w \<Rightarrow> (c_int \<times> 'w) option"

section \<open>The functions of the source\<close>

text \<open>\<^verbatim>\<open>solution_func\<close>: the sample submission, \<^verbatim>\<open>return 0;\<close>.\<close>

definition solution_func :: "'w candidate" where
  "solution_func input_vector w = Some (0, w)"

text \<open>
  The loop of \<^verbatim>\<open>reference_solution\<close>:
  \<^verbatim>\<open>for (unsigned int i = 0; i < input_vector.size(); i++) sum += input_vector[i];\<close>
  The counter is 32 bits wide and the size is not, so the loop need not end:
  \<open>None\<close> is the run that never leaves it.
\<close>

partial_function (option) reference_loop :: "int_vector \<Rightarrow> c_uint \<Rightarrow> c_int \<Rightarrow> c_int option" where
  "reference_loop input_vector i sum_acc =
     (if unat i < length input_vector
      then reference_loop input_vector (i + 1) (sum_acc + input_vector ! unat i)
      else Some sum_acc)"

definition reference_solution :: "int_vector \<Rightarrow> c_int option" where
  "reference_solution input_vector = reference_loop input_vector 0 0"

text \<open>
  The test table that \<^verbatim>\<open>evaluate\<close> builds with \<^verbatim>\<open>push_back\<close>:
  \<^verbatim>\<open>std::vector<int> large_test_vector(100000, 7)\<close> holds 100000 copies of 7.
\<close>

definition large_test_vector :: int_vector where
  "large_test_vector = replicate 100000 7 @ [- 7654321]"

definition test_vectors :: "int_vector list" where
  "test_vectors = [[], [1, 2, 3, 4, 5, - 6, - 7], large_test_vector]"

definition test_values :: "c_int list" where
  "test_values = [10, 30, 60]"

text \<open>
  The scoring loop of \<^verbatim>\<open>evaluate\<close>. \<^verbatim>\<open>pass\<close> is the \<^verbatim>\<open>int\<close> 1 or 0 of the
  comparison. The reference has no effect on the state, so the order in which C++
  evaluates the two operands of \<^verbatim>\<open>==\<close> does not show. Reading \<^verbatim>\<open>test_values[i]\<close>
  past the end is undefined in C++: the model gives no result there.
\<close>

partial_function (option) evaluate_loop ::
  "'w candidate \<Rightarrow> int_vector list \<Rightarrow> c_int list \<Rightarrow> c_uint \<Rightarrow> c_int \<Rightarrow> c_int \<Rightarrow> 'w
     \<Rightarrow> ((c_int \<times> c_int) \<times> 'w) option" where
  "evaluate_loop candidate_solution tvs vals i candidate_score max_score w =
     (if unat i < length tvs then
        (if unat i < length vals then
           (let test_vector = tvs ! unat i;
                test_value = vals ! unat i
            in case candidate_solution test_vector w of
                 None \<Rightarrow> None
               | Some (out, w') \<Rightarrow>
                   (case reference_solution test_vector of
                      None \<Rightarrow> None
                    | Some expected \<Rightarrow>
                        (let pass = (if out = expected then 1 else 0)
                         in evaluate_loop candidate_solution tvs vals (i + 1)
                              (candidate_score + pass * test_value)
                              (max_score + test_value) w')))
         else None)
      else Some ((candidate_score, max_score), w))"

definition evaluate :: "'w candidate \<Rightarrow> 'w \<Rightarrow> ((c_int \<times> c_int) \<times> 'w) option" where
  "evaluate candidate_solution w =
     evaluate_loop candidate_solution test_vectors test_values 0 0 0 w"

section \<open>Notions used to state the properties\<close>

text \<open>
  A side-effect-free C++ function passed as the candidate: its result depends on the
  argument only, and it leaves the state as it found it.
\<close>

definition pure_candidate :: "(int_vector \<Rightarrow> c_int option) \<Rightarrow> 'w candidate" where
  "pure_candidate f input_vector w = map_option (\<lambda>r. (r, w)) (f input_vector)"

text \<open>
  A candidate instrumented with a log of the arguments it was invoked with, in the order
  of the invocations.
\<close>

definition traced :: "'w candidate \<Rightarrow> (int_vector list \<times> 'w) candidate" where
  "traced cand input_vector lw =
     map_option (\<lambda>(r, w'). (r, (fst lw @ [input_vector], w'))) (cand input_vector (snd lw))"

text \<open>
  A candidate with a static counter:
  \<^verbatim>\<open>int f(std::vector<int>) { static int n = 0; return n++; }\<close>
\<close>

definition counting_candidate :: "c_int candidate" where
  "counting_candidate input_vector n = Some (n, n + 1)"

text \<open>
  A candidate that counts its own calls and returns 0:
  \<^verbatim>\<open>int g(std::vector<int>) { static int calls = 0; calls++; return 0; }\<close>
\<close>

definition tallying_candidate :: "c_int candidate" where
  "tallying_candidate input_vector calls = Some (0, calls + 1)"

text \<open>Two successive calls of \<^verbatim>\<open>evaluate\<close> with the same candidate: the two pairs.\<close>

definition evaluate_twice ::
  "'w candidate \<Rightarrow> 'w \<Rightarrow> ((c_int \<times> c_int) \<times> (c_int \<times> c_int)) option" where
  "evaluate_twice cand w =
     (case evaluate cand w of
        None \<Rightarrow> None
      | Some (r1, w1) \<Rightarrow>
          (case evaluate cand w1 of
             None \<Rightarrow> None
           | Some (r2, w2) \<Rightarrow> Some (r1, r2)))"

section \<open>The reference loop\<close>

lemma unat_succ_below:
  fixes i :: c_uint
  assumes "unat i < n" and "n < 2 ^ 32"
  shows "unat (i + 1) = Suc (unat i)"
proof -
  have "unat i + 1 < 2 ^ 32" using assms by simp
  then show ?thesis by (simp add: unat_word_ariths)
qed

text \<open>
  On a vector of fewer than \<open>2 ^ 32\<close> elements the loop ends, with the elements from
  \<open>i\<close> on added to the accumulator, left to right.
\<close>

lemma reference_loop_sum:
  assumes len: "length xs < 2 ^ 32" and i: "unat i \<le> length xs"
  shows "reference_loop xs i acc = Some (foldl (+) acc (drop (unat i) xs))"
  using i
proof (induction "length xs - unat i" arbitrary: i acc)
  case 0
  then have "\<not> unat i < length xs" by simp
  with 0 show ?case by (subst reference_loop.simps) simp
next
  case (Suc k)
  then have lt: "unat i < length xs" by simp
  have step: "unat (i + 1) = Suc (unat i)" using lt len by (rule unat_succ_below)
  have "reference_loop xs i acc = reference_loop xs (i + 1) (acc + xs ! unat i)"
    using lt by (subst reference_loop.simps) simp
  also have "\<dots> = Some (foldl (+) (acc + xs ! unat i) (drop (unat (i + 1)) xs))"
    using Suc lt step by (intro Suc.hyps(1)) simp_all
  also have "drop (unat i) xs = xs ! unat i # drop (unat (i + 1)) xs"
    using lt step by (simp add: Cons_nth_drop_Suc)
  then have "foldl (+) (acc + xs ! unat i) (drop (unat (i + 1)) xs)
      = foldl (+) acc (drop (unat i) xs)"
    by simp
  finally show ?case .
qed

lemma reference_solution_sum:
  "length xs < 2 ^ 32 \<Longrightarrow> reference_solution xs = Some (foldl (+) 0 xs)"
  by (simp add: reference_solution_def reference_loop_sum)

text \<open>
  The loop leaves only when the counter has reached the size, and the counter stays
  below \<open>2 ^ 32\<close>: a run that returns was on a vector shorter than that.
\<close>

lemma reference_loop_returns_short:
  assumes "reference_loop xs i acc = Some y"
  shows "length xs < 2 ^ 32"
proof (rule reference_loop.raw_induct
    [where P = "\<lambda>xs i acc y. length xs < 2 ^ 32", OF _ assms])
  fix f :: "int_vector \<Rightarrow> c_uint \<Rightarrow> c_int \<Rightarrow> c_int option" and xs i acc y
  assume IH: "\<And>xs i acc y. f xs i acc = Some y \<Longrightarrow> length xs < 2 ^ 32"
    and body: "(if unat i < length xs then f xs (i + 1) (acc + xs ! unat i) else Some acc)
                 = Some y"
  show "length xs < 2 ^ 32"
  proof (cases "unat i < length xs")
    case True
    with body have "f xs (i + 1) (acc + xs ! unat i) = Some y" by simp
    then show ?thesis by (rule IH)
  next
    case False
    have "unat i < 2 ^ 32" using unsigned_less [of i] by simp
    with False show ?thesis by simp
  qed
qed

lemma reference_solution_None:
  assumes "2 ^ 32 \<le> length xs"
  shows "reference_solution xs = None"
proof (cases "reference_solution xs")
  case None
  then show ?thesis .
next
  case (Some y)
  then have "length xs < 2 ^ 32"
    unfolding reference_solution_def by (rule reference_loop_returns_short)
  with assms show ?thesis by simp
qed

lemma foldl_add_replicate:
  "foldl (+) acc (replicate n (x :: c_int)) = acc + of_nat n * x"
  by (induction n arbitrary: acc) (simp_all add: algebra_simps)

subsection \<open>The reference on the three test vectors\<close>

lemma reference_solution_empty: "reference_solution [] = Some 0"
  by (simp add: reference_solution_sum)

lemma reference_solution_short: "reference_solution [1, 2, 3, 4, 5, - 6, - 7] = Some 2"
  by (simp add: reference_solution_sum)

lemma reference_solution_large: "reference_solution large_test_vector = Some (- 6954321)"
  by (simp add: reference_solution_sum large_test_vector_def foldl_add_replicate)

lemmas reference_on_tests =
  reference_solution_empty reference_solution_short reference_solution_large

section \<open>The scoring loop\<close>

lemma evaluate_loop_exit:
  "length tvs \<le> unat i \<Longrightarrow> evaluate_loop cand tvs vals i sc mx w = Some ((sc, mx), w)"
  by (subst evaluate_loop.simps) simp

lemma evaluate_loop_step:
  assumes "unat i < length tvs" and "unat i < length vals"
    and "cand (tvs ! unat i) w = Some (out, w')"
    and "reference_solution (tvs ! unat i) = Some expected"
  shows "evaluate_loop cand tvs vals i sc mx w =
           evaluate_loop cand tvs vals (i + 1)
             (sc + (if out = expected then 1 else 0) * vals ! unat i) (mx + vals ! unat i) w'"
  using assms by (subst evaluate_loop.simps) (simp add: Let_def)

lemma evaluate_loop_candidate_fails:
  assumes "unat i < length tvs" and "cand (tvs ! unat i) w = None"
  shows "evaluate_loop cand tvs vals i sc mx w = None"
  using assms by (subst evaluate_loop.simps) simp

text \<open>
  One call of \<^verbatim>\<open>evaluate\<close> is three calls of the candidate, each on the state the call
  before left, and the two sums.
\<close>

lemma evaluate_unfold:
  "evaluate cand w =
     (case cand [] w of None \<Rightarrow> None
      | Some (c1, w1) \<Rightarrow>
     (case cand [1, 2, 3, 4, 5, - 6, - 7] w1 of None \<Rightarrow> None
      | Some (c2, w2) \<Rightarrow>
     (case cand large_test_vector w2 of None \<Rightarrow> None
      | Some (c3, w3) \<Rightarrow>
          Some (((if c1 = 0 then 1 else 0) * 10 + (if c2 = 2 then 1 else 0) * 30
                  + (if c3 = - 6954321 then 1 else 0) * 60, 100), w3))))"
proof (cases "cand [] w")
  case None
  then show ?thesis
    by (simp add: evaluate_def test_vectors_def evaluate_loop_candidate_fails)
next
  case (Some r1)
  note call1 = this
  obtain c1 w1 where r1: "r1 = (c1, w1)" by (cases r1)
  have s1: "evaluate cand w = evaluate_loop cand test_vectors test_values 1
              ((if c1 = 0 then 1 else 0) * 10) 10 w1"
    unfolding evaluate_def
    by (subst evaluate_loop_step [where out = c1 and w' = w1 and expected = 0])
       (simp_all add: test_vectors_def test_values_def call1 r1 reference_on_tests)
  show ?thesis
  proof (cases "cand [1, 2, 3, 4, 5, - 6, - 7] w1")
    case None
    then show ?thesis
      by (simp add: s1 call1 r1 test_vectors_def evaluate_loop_candidate_fails)
  next
    case (Some r2)
    note call2 = this
    obtain c2 w2 where r2: "r2 = (c2, w2)" by (cases r2)
    have s2: "evaluate cand w = evaluate_loop cand test_vectors test_values 2
              ((if c1 = 0 then 1 else 0) * 10 + (if c2 = 2 then 1 else 0) * 30) 40 w2"
      unfolding s1
      by (subst evaluate_loop_step [where out = c2 and w' = w2 and expected = 2])
         (simp_all add: test_vectors_def test_values_def call2 r2 reference_on_tests)
    show ?thesis
    proof (cases "cand large_test_vector w2")
      case None
      then show ?thesis
        by (simp add: s2 call1 r1 call2 r2 test_vectors_def evaluate_loop_candidate_fails)
    next
      case (Some r3)
      obtain c3 w3 where r3: "r3 = (c3, w3)" by (cases r3)
      have s3: "evaluate cand w = evaluate_loop cand test_vectors test_values 3
              ((if c1 = 0 then 1 else 0) * 10 + (if c2 = 2 then 1 else 0) * 30
                 + (if c3 = - 6954321 then 1 else 0) * 60) 100 w3"
        unfolding s2
        by (subst evaluate_loop_step [where out = c3 and w' = w3 and expected = "- 6954321"])
           (simp_all add: test_vectors_def test_values_def Some r3 reference_on_tests)
      show ?thesis
        by (simp add: s3 call1 r1 call2 r2 Some r3 test_vectors_def evaluate_loop_exit)
    qed
  qed
qed

lemma evaluate_returns:
  assumes "cand (test_vectors ! 0) w = Some (c1, w1)"
    and "cand (test_vectors ! 1) w1 = Some (c2, w2)"
    and "cand (test_vectors ! 2) w2 = Some (c3, w3)"
  shows "evaluate cand w =
           Some (((if c1 = 0 then 1 else 0) * 10 + (if c2 = 2 then 1 else 0) * 30
                   + (if c3 = - 6954321 then 1 else 0) * 60, 100), w3)"
  using assms by (simp add: evaluate_unfold test_vectors_def)

section \<open>The reference oracle\<close>

text \<open>
  Claim C3, as the code has it: on the three test vectors of \<^verbatim>\<open>evaluate\<close> (the empty
  vector, \<open>[1, 2, 3, 4, 5, -6, -7]\<close>, and 100000 copies of 7 followed by \<open>-7654321\<close>)
  the reference returns 0, 2 and \<open>-6954321\<close>, read as signed values.
\<close>

theorem reference_outputs_on_test_vectors:
  "map (map_option sint \<circ> reference_solution) test_vectors
     = [Some 0, Some 2, Some (- 6954321)]"
  by (simp add: test_vectors_def reference_on_tests)

text \<open>
  The outputs are not 0, \<open>-8\<close> and 692345679: \<open>1 + 2 + 3 + 4 + 5 - 6 - 7\<close> is 2, and
  \<open>100000 * 7 - 7654321\<close> is \<open>-6954321\<close>.
\<close>

theorem reference_outputs_not_as_listed:
  "map (map_option sint \<circ> reference_solution) test_vectors
     \<noteq> [Some 0, Some (- 8), Some 692345679]"
  by (simp add: test_vectors_def reference_on_tests)

text \<open>
  Claim C6 asks that the reference return the wrapped sum of every vector. On a vector
  of \<open>2 ^ 32\<close> zeros the 32-bit counter \<open>i\<close> wraps to 0 before it reaches the size:
  the loop is never left and the reference returns nothing. (On every vector with fewer
  than \<open>2 ^ 32\<close> elements it does return the wrapped sum: \<open>reference_solution_sum\<close>.)
\<close>

theorem reference_solution_never_returns_on_huge_vector:
  "reference_solution (replicate (2 ^ 32) 0) = None"
  by (rule reference_solution_None) simp

section \<open>Scores\<close>

text \<open>
  Claim C7: a candidate that returns 0 on every input, whatever the state, scores
  exactly 10 out of a maximum of 100: only the empty test case matches the reference.
\<close>

theorem constant_zero_scores_10_of_100:
  assumes "\<forall>xs w. map_option fst (cand xs w) = Some 0"
  shows "\<exists>w'. evaluate cand w = Some ((10, 100), w')"
proof -
  from assms have "\<exists>w1. cand (test_vectors ! 0) w = Some (0, w1)" by fastforce
  then obtain w1 where c1: "cand (test_vectors ! 0) w = Some (0, w1)" ..
  from assms have "\<exists>w2. cand (test_vectors ! 1) w1 = Some (0, w2)" by fastforce
  then obtain w2 where c2: "cand (test_vectors ! 1) w1 = Some (0, w2)" ..
  from assms have "\<exists>w3. cand (test_vectors ! 2) w2 = Some (0, w3)" by fastforce
  then obtain w3 where c3: "cand (test_vectors ! 2) w2 = Some (0, w3)" ..
  show ?thesis by (simp add: evaluate_returns [OF c1 c2 c3])
qed

theorem constant_zero_scores_10_of_100_witness:
  "(\<forall>xs w. map_option fst (solution_func xs (w :: unit)) = Some 0)
   \<and> evaluate solution_func () = Some ((10, 100), ())"
  using constant_zero_scores_10_of_100 [of solution_func "()"]
  by (simp add: solution_func_def)

text \<open>
  Claim C1: when the candidate returns \<open>c1\<close>, \<open>c2\<close>, \<open>c3\<close> on the three test cases
  (each call on the state the call before left), \<^verbatim>\<open>evaluate\<close> returns, and the achieved
  score is the sum of the weights of exactly those test cases on which the candidate's
  output equals the output of the reference on the same input.
\<close>

theorem achieved_score_is_weight_of_matching_cases:
  assumes "cand (test_vectors ! 0) w = Some (c1, w1)"
    and "cand (test_vectors ! 1) w1 = Some (c2, w2)"
    and "cand (test_vectors ! 2) w2 = Some (c3, w3)"
  shows "\<exists>score max_score.
           evaluate cand w = Some ((score, max_score), w3) \<and>
           sint score =
             sum_list [sint weight.
                        ((input, weight), out) \<leftarrow> zip (zip test_vectors test_values) [c1, c2, c3],
                        reference_solution input = Some out]"
  by (simp add: evaluate_returns [OF assms] test_vectors_def test_values_def
      reference_on_tests)

theorem achieved_score_is_weight_of_matching_cases_witness:
  "counting_candidate (test_vectors ! 0) 0 = Some (0, 1)
   \<and> counting_candidate (test_vectors ! 1) 1 = Some (1, 2)
   \<and> counting_candidate (test_vectors ! 2) 2 = Some (2, 3)
   \<and> (\<exists>score max_score.
         evaluate counting_candidate 0 = Some ((score, max_score), 3) \<and>
         sint score =
           sum_list [sint weight.
                      ((input, weight), out) \<leftarrow> zip (zip test_vectors test_values) [0, 1, 2],
                      reference_solution input = Some out])"
  using achieved_score_is_weight_of_matching_cases [of counting_candidate 0 0 1 1 2 2 3]
  by (simp add: counting_candidate_def)

text \<open>
  Claim C2: when the candidate returns on the three test cases, whatever it returns,
  the maximum score that \<^verbatim>\<open>evaluate\<close> returns is the sum of all the weights,
  \<open>10 + 30 + 60 = 100\<close>.
\<close>

theorem max_score_is_sum_of_weights:
  assumes "cand (test_vectors ! 0) w = Some (c1, w1)"
    and "cand (test_vectors ! 1) w1 = Some (c2, w2)"
    and "cand (test_vectors ! 2) w2 = Some (c3, w3)"
  shows "\<exists>score max_score.
           evaluate cand w = Some ((score, max_score), w3) \<and>
           sint max_score = sum_list (map sint test_values) \<and>
           sint max_score = 100"
  by (simp add: evaluate_returns [OF assms] test_values_def)

theorem max_score_is_sum_of_weights_witness:
  "counting_candidate (test_vectors ! 0) 7 = Some (7, 8)
   \<and> counting_candidate (test_vectors ! 1) 8 = Some (8, 9)
   \<and> counting_candidate (test_vectors ! 2) 9 = Some (9, 10)
   \<and> (\<exists>score max_score.
         evaluate counting_candidate 7 = Some ((score, max_score), 10) \<and>
         sint max_score = sum_list (map sint test_values) \<and>
         sint max_score = 100)"
  using max_score_is_sum_of_weights [of counting_candidate 7 7 8 8 9 9 10]
  by (simp add: counting_candidate_def)

text \<open>
  Claim C4: when the candidate returns on the three test cases, the pair that
  \<^verbatim>\<open>evaluate\<close> returns satisfies \<open>0 \<le> achieved_score \<le> max_score\<close>, as signed values.
\<close>

theorem achieved_score_between_0_and_max:
  assumes "cand (test_vectors ! 0) w = Some (c1, w1)"
    and "cand (test_vectors ! 1) w1 = Some (c2, w2)"
    and "cand (test_vectors ! 2) w2 = Some (c3, w3)"
  shows "\<exists>score max_score.
           evaluate cand w = Some ((score, max_score), w3) \<and>
           0 \<le> sint score \<and> sint score \<le> sint max_score"
  by (simp add: evaluate_returns [OF assms])

theorem achieved_score_between_0_and_max_witness:
  "solution_func (test_vectors ! 0) () = Some (0, ())
   \<and> solution_func (test_vectors ! 1) () = Some (0, ())
   \<and> solution_func (test_vectors ! 2) () = Some (0, ())
   \<and> (\<exists>score max_score.
         evaluate solution_func () = Some ((score, max_score), ()) \<and>
         0 \<le> sint score \<and> sint score \<le> sint max_score)"
  using achieved_score_between_0_and_max [of solution_func "()" 0 "()" 0 "()" 0 "()"]
  by (simp add: solution_func_def)

text \<open>
  Claim C10: when the candidate returns on the three test cases, the achieved score is
  one of the eight sums of a sublist of the weights \<open>[10, 30, 60]\<close>: it lies in
  \<open>{0, 10, 30, 40, 60, 70, 90, 100}\<close>.
\<close>

theorem achieved_score_is_subset_sum:
  assumes "cand (test_vectors ! 0) w = Some (c1, w1)"
    and "cand (test_vectors ! 1) w1 = Some (c2, w2)"
    and "cand (test_vectors ! 2) w2 = Some (c3, w3)"
  shows "\<exists>score max_score.
           evaluate cand w = Some ((score, max_score), w3) \<and>
           sint score \<in> sum_list ` set (subseqs (map sint test_values)) \<and>
           sint score \<in> {0, 10, 30, 40, 60, 70, 90, 100}"
  by (simp add: evaluate_returns [OF assms] test_values_def)

theorem achieved_score_is_subset_sum_witness:
  "pure_candidate reference_solution (test_vectors ! 0) () = Some (0, ())
   \<and> pure_candidate reference_solution (test_vectors ! 1) () = Some (2, ())
   \<and> pure_candidate reference_solution (test_vectors ! 2) () = Some (- 6954321, ())
   \<and> (\<exists>score max_score.
         evaluate (pure_candidate reference_solution) () = Some ((score, max_score), ()) \<and>
         sint score \<in> sum_list ` set (subseqs (map sint test_values)) \<and>
         sint score \<in> {0, 10, 30, 40, 60, 70, 90, 100})"
  using achieved_score_is_subset_sum
    [of "pure_candidate reference_solution" "()" 0 "()" 2 "()" "- 6954321" "()"]
  by (simp add: pure_candidate_def test_vectors_def reference_on_tests)

text \<open>
  Claim C5: a candidate that agrees with the reference on every input, in every state,
  scores exactly the maximum: \<^verbatim>\<open>evaluate\<close> returns \<open>(100, 100)\<close>. The reference itself,
  passed as the candidate, is the instance of the witness.
\<close>

theorem candidate_equal_to_reference_scores_max:
  assumes "\<forall>xs w. map_option fst (cand xs w) = reference_solution xs"
  shows "\<exists>w'. evaluate cand w = Some ((100, 100), w')"
proof -
  have agree: "\<exists>w'. cand xs v = Some (r, w')" if "reference_solution xs = Some r" for xs v r
  proof -
    from assms that have "map_option fst (cand xs v) = Some r" by simp
    then show ?thesis by auto
  qed
  obtain w1 where c1: "cand (test_vectors ! 0) w = Some (0, w1)"
    using agree [OF reference_solution_empty] by (auto simp: test_vectors_def)
  obtain w2 where c2: "cand (test_vectors ! 1) w1 = Some (2, w2)"
    using agree [OF reference_solution_short] by (auto simp: test_vectors_def)
  obtain w3 where c3: "cand (test_vectors ! 2) w2 = Some (- 6954321, w3)"
    using agree [OF reference_solution_large] by (auto simp: test_vectors_def)
  show ?thesis by (simp add: evaluate_returns [OF c1 c2 c3])
qed

theorem candidate_equal_to_reference_scores_max_witness:
  "(\<forall>xs w. map_option fst (pure_candidate reference_solution xs (w :: unit))
             = reference_solution xs)
   \<and> evaluate (pure_candidate reference_solution) () = Some ((100, 100), ())"
  using candidate_equal_to_reference_scores_max [of "pure_candidate reference_solution" "()"]
  by (simp add: pure_candidate_def option.map_comp comp_def option.map_ident)

section \<open>Calls of the candidate\<close>

text \<open>The log changes nothing of what \<^verbatim>\<open>evaluate\<close> returns.\<close>

lemma evaluate_traced:
  "map_option (\<lambda>(r, lw). (r, snd lw)) (evaluate (traced cand) (log, w)) = evaluate cand w"
  by (simp add: evaluate_unfold [of cand] evaluate_unfold [of "traced cand"] traced_def
      split: option.split)

text \<open>
  Claim C9: during one call of \<^verbatim>\<open>evaluate\<close> with a candidate that returns on the three
  test cases, the candidate is invoked exactly three times, once per test case, in the
  order of the table: on the empty vector, then on the vector of 7 elements, then on the
  vector of 100001 elements. The log of the instrumented candidate grows by exactly
  these three arguments.
\<close>

theorem candidate_invoked_once_per_test_case_in_order:
  assumes "cand (test_vectors ! 0) w = Some (c1, w1)"
    and "cand (test_vectors ! 1) w1 = Some (c2, w2)"
    and "cand (test_vectors ! 2) w2 = Some (c3, w3)"
  shows "\<exists>r. evaluate (traced cand) (log, w)
               = Some (r, (log @ [[], [1, 2, 3, 4, 5, - 6, - 7],
                                   replicate 100000 7 @ [- 7654321]], w3))
             \<and> evaluate cand w = Some (r, w3)"
proof -
  have t1: "traced cand (test_vectors ! 0) (log, w)
              = Some (c1, (log @ [test_vectors ! 0], w1))"
    using assms(1) by (simp add: traced_def)
  have t2: "traced cand (test_vectors ! 1) (log @ [test_vectors ! 0], w1)
              = Some (c2, (log @ [test_vectors ! 0, test_vectors ! 1], w2))"
    using assms(2) by (simp add: traced_def)
  have t3: "traced cand (test_vectors ! 2) (log @ [test_vectors ! 0, test_vectors ! 1], w2)
              = Some (c3, (log @ [test_vectors ! 0, test_vectors ! 1, test_vectors ! 2], w3))"
    using assms(3) by (simp add: traced_def)
  show ?thesis
    by (simp add: evaluate_returns [OF t1 t2 t3] evaluate_returns [OF assms])
       (simp add: test_vectors_def large_test_vector_def)
qed

theorem candidate_invoked_once_per_test_case_in_order_witness:
  "solution_func (test_vectors ! 0) () = Some (0, ())
   \<and> solution_func (test_vectors ! 1) () = Some (0, ())
   \<and> solution_func (test_vectors ! 2) () = Some (0, ())
   \<and> (\<exists>r. evaluate (traced solution_func) ([], ())
             = Some (r, ([[], [1, 2, 3, 4, 5, - 6, - 7],
                          replicate 100000 7 @ [- 7654321]], ()))
           \<and> evaluate solution_func () = Some (r, ()))"
  using candidate_invoked_once_per_test_case_in_order
    [of solution_func "()" 0 "()" 0 "()" 0 "()" "[]"]
  by (simp add: solution_func_def)

section \<open>Successive calls\<close>

text \<open>
  Claim C8 does not hold for every candidate: with the candidate that returns the value
  of a static counter, the first call of \<^verbatim>\<open>evaluate\<close> returns \<open>(10, 100)\<close> and the
  second \<open>(0, 100)\<close>.
\<close>

theorem two_calls_differ_for_counting_candidate:
  "evaluate_twice counting_candidate 0 = Some ((10, 100), (0, 100))"
  by (simp add: evaluate_twice_def evaluate_unfold counting_candidate_def)

text \<open>
  Claim C8, amended: \<^verbatim>\<open>evaluate\<close> keeps no state of its own. For every candidate whose
  result (and whether it returns) depends on its argument only, not on the state, and
  which returns on the three test cases, a first call of \<^verbatim>\<open>evaluate\<close> returns a pair
  \<open>r\<close>, and a second call with the same candidate, on the state the first call left,
  returns as well, with the same pair \<open>r\<close>.
\<close>

theorem two_calls_same_pair:
  assumes indep: "\<forall>xs w w'. map_option fst (cand xs w) = map_option fst (cand xs w')"
    and a1: "cand (test_vectors ! 0) w = Some (c1, w1)"
    and a2: "cand (test_vectors ! 1) w1 = Some (c2, w2)"
    and a3: "cand (test_vectors ! 2) w2 = Some (c3, w3)"
  shows "\<exists>r. evaluate cand w = Some (r, w3) \<and> evaluate_twice cand w = Some (r, r)"
proof -
  define r :: "c_int \<times> c_int" where
    "r = ((if c1 = 0 then 1 else 0) * 10 + (if c2 = 2 then 1 else 0) * 30
            + (if c3 = - 6954321 then 1 else 0) * 60, 100)"
  have first: "evaluate cand w = Some (r, w3)"
    unfolding r_def by (rule evaluate_returns [OF a1 a2 a3])
  have again: "\<exists>v'. cand xs u = Some (c, v')" if "cand xs v = Some (c, v'')" for xs u v c v''
  proof -
    from indep have "map_option fst (cand xs u) = map_option fst (cand xs v)" by blast
    with that show ?thesis by auto
  qed
  obtain u1 where b1: "cand (test_vectors ! 0) w3 = Some (c1, u1)"
    using again [OF a1] by blast
  obtain u2 where b2: "cand (test_vectors ! 1) u1 = Some (c2, u2)"
    using again [OF a2] by blast
  obtain u3 where b3: "cand (test_vectors ! 2) u2 = Some (c3, u3)"
    using again [OF a3] by blast
  have second: "evaluate cand w3 = Some (r, u3)"
    unfolding r_def by (rule evaluate_returns [OF b1 b2 b3])
  have "evaluate_twice cand w = Some (r, r)"
    by (simp add: evaluate_twice_def first second)
  with first show ?thesis by blast
qed

theorem two_calls_same_pair_witness:
  "(\<forall>xs w w'. map_option fst (tallying_candidate xs w)
                = map_option fst (tallying_candidate xs w'))
   \<and> tallying_candidate (test_vectors ! 0) 0 = Some (0, 1)
   \<and> tallying_candidate (test_vectors ! 1) 1 = Some (0, 2)
   \<and> tallying_candidate (test_vectors ! 2) 2 = Some (0, 3)
   \<and> (\<exists>r. evaluate tallying_candidate 0 = Some (r, 3)
           \<and> evaluate_twice tallying_candidate 0 = Some (r, r))
   \<and> evaluate_twice tallying_candidate 0 = Some ((10, 100), (10, 100))"
  using two_calls_same_pair [of tallying_candidate 0 0 1 0 2 0 3]
  by (simp add: tallying_candidate_def evaluate_unfold evaluate_twice_def)

end
